theory Spec2Isabelle
  imports Complex_Main
begin

section \<open>Scoring engine of the performance-management backend\<close>

text \<open>
  The source is \<^verbatim>\<open>src/main.py\<close>. In \<^verbatim>\<open>compute_actual\<close> and
  \<^verbatim>\<open>compute_percentage\<close> Python's \<^verbatim>\<open>float\<close> is read as \<open>real\<close>: that part is
  about the formulas, not about rounding, infinities or NaN. The arithmetic of the weighted
  score is modelled with the rounding of doubles, in its own section. A Python value
  that may be \<^verbatim>\<open>None\<close> is an \<open>option\<close>. Every \<^verbatim>\<open>raise\<close> of the source and every
  exception of an operator it applies is a value of \<open>error\<close>, returned as \<open>Inl\<close>;
  \<open>RequestValidationError\<close> is the rejection of a request body that does not fit its
  schema, which happens before the endpoint's function runs.
\<close>

datatype error =
  HTTPException nat string
  | RequestValidationError
  | ZeroDivisionError

text \<open>Python's \<^verbatim>\<open>/\<close> on floats: a zero divisor raises.\<close>

definition truediv :: "real \<Rightarrow> real \<Rightarrow> error + real" where
  "truediv x y = (if y = 0 then Inl ZeroDivisionError else Inr (x / y))"

text \<open>The builtin \<^verbatim>\<open>sum\<close>: starts at 0 and adds the elements from the left.\<close>

definition sum_builtin :: "real list \<Rightarrow> real" where
  "sum_builtin xs = foldl (+) 0 xs"

text \<open>
  \<^verbatim>\<open>
  def compute_actual(values, aggregation):
      if not values:
          return 0.0
      if aggregation == 'Sum':
          return float(sum(values))
      # Average
      return float(sum(values) / len(values))
  \<close>
\<close>

definition compute_actual :: "real list \<Rightarrow> string option \<Rightarrow> error + real" where
  "compute_actual vals aggregation =
     (if vals = [] then Inr 0
      else if aggregation = Some ''Sum'' then Inr (sum_builtin vals)
      else truediv (sum_builtin vals) (real (length vals)))"

text \<open>
  \<^verbatim>\<open>
  def clamp_percentage(p):
      return max(0.0, min(100.0, p))
  \<close>
\<close>

definition clamp_percentage :: "real \<Rightarrow> real" where
  "clamp_percentage p = max 0 (min 100 p)"

text \<open>
  The two conditions of the Control branch, in the order the source evaluates them: the
  first assignment to \<^verbatim>\<open>pct\<close> (line 51) and the one that overwrites it (line 53).
\<close>

definition control_first :: "real \<Rightarrow> real \<Rightarrow> real \<Rightarrow> bool" where
  "control_first actual start target \<longleftrightarrow>
     (actual \<ge> start \<and> actual \<le> target) \<or> (target \<ge> start \<and> start \<le> actual \<and> actual \<le> target)"

definition control_second :: "real \<Rightarrow> real \<Rightarrow> real \<Rightarrow> bool" where
  "control_second actual start target \<longleftrightarrow>
     (start \<le> actual \<and> actual \<le> target) \<or> (target \<le> actual \<and> actual \<le> start)"

text \<open>
  \<^verbatim>\<open>
  def compute_percentage(category, actual, start, target):
      if category in ['Increase', 'Decrease'] and start == target:
          return 0.0
      if category == 'Increase':
          pct = ((actual - start) / (target - start)) * 100.0
      elif category == 'Decrease':
          pct = ((start - actual) / (start - target)) * 100.0
      else:  # Control
          pct = 100.0 if <first condition> else 0.0
          pct = 100.0 if <second condition> else 0.0
      return clamp_percentage(float(pct))
  \<close>
  The last branch is taken by every category that is neither \<^verbatim>\<open>'Increase'\<close> nor
  \<^verbatim>\<open>'Decrease'\<close>, \<^verbatim>\<open>None\<close> included.
\<close>

definition compute_percentage :: "string option \<Rightarrow> real \<Rightarrow> real \<Rightarrow> real \<Rightarrow> error + real" where
  "compute_percentage category actual start target =
     (if category \<in> set [Some ''Increase'', Some ''Decrease''] \<and> start = target then Inr 0
      else if category = Some ''Increase'' then
        (case truediv (actual - start) (target - start) of
           Inl e \<Rightarrow> Inl e
         | Inr q \<Rightarrow> Inr (clamp_percentage (q * 100)))
      else if category = Some ''Decrease'' then
        (case truediv (start - actual) (start - target) of
           Inl e \<Rightarrow> Inl e
         | Inr q \<Rightarrow> Inr (clamp_percentage (q * 100)))
      else
        (let pct = (if control_first actual start target then 100 else (0::real));
             pct = (if control_second actual start target then 100 else (0::real))
         in Inr (clamp_percentage pct)))"

section \<open>Stored documents\<close>

text \<open>
  The two collections \<^verbatim>\<open>db['kpi']\<close> and \<^verbatim>\<open>db['kpi_data']\<close> are lists of documents in
  the store's natural order. The fields of a KPI are those of the \<^verbatim>\<open>Kpi\<close> schema
  (\<^verbatim>\<open>src/schemas.py\<close>); \<open>category\<close>, \<open>aggregation\<close> and \<open>weightage\<close> are optional
  because the source reads them with \<^verbatim>\<open>.get\<close> and goes on with \<^verbatim>\<open>None\<close>, while
  \<open>start_value\<close> and \<open>target_value\<close> are the schema's required numbers, which the
  source passes to \<^verbatim>\<open>float\<close>. The key \<^verbatim>\<open>_id\<close> of a KPI is the field \<open>doc_id\<close>.

  A \<open>snapshot\<close> is the dictionary \<^verbatim>\<open>record\<close> that \<^verbatim>\<open>save_kpi_data\<close> builds, with
  \<^verbatim>\<open>values\<close> as \<open>snapshot_values\<close>; a stored snapshot document has in addition the key
  \<^verbatim>\<open>_id\<close> that the store gives it, the field \<open>snapshot_doc_id\<close>.

  The type \<open>'i\<close> is the store's identifier type (\<^verbatim>\<open>bson.ObjectId\<close>), of which the source
  uses the constructor from a string, which may fail, and \<^verbatim>\<open>str\<close>; both are parameters
  of the functions below.
\<close>

record kpi_fields =
  name :: string
  unit :: string
  category :: "string option"
  weightage :: "real option"
  start_value :: real
  target_value :: real
  aggregation :: "string option"
  frequency :: string

record 'i kpi_doc = kpi_fields +
  doc_id :: 'i

record snapshot =
  kpi_id :: string
  snapshot_values :: "real list"
  actual :: real
  percentage :: "real option"
  updated_at :: nat

record 'i snapshot_doc = snapshot +
  snapshot_doc_id :: 'i

record 'i database =
  kpi :: "'i kpi_doc list"
  kpi_data :: "'i snapshot_doc list"

text \<open>\<^verbatim>\<open>db['kpi'].find_one({"_id": i})\<close> and \<^verbatim>\<open>db['kpi_data'].find_one({"kpi_id": kid})\<close>:
  the first matching document, or \<^verbatim>\<open>None\<close>.\<close>

definition find_one_id :: "'i \<Rightarrow> 'i kpi_doc list \<Rightarrow> 'i kpi_doc option" where
  "find_one_id i docs = find (\<lambda>d. doc_id d = i) docs"

definition find_one_kpi_id :: "string \<Rightarrow> 'i snapshot_doc list \<Rightarrow> 'i snapshot_doc option" where
  "find_one_kpi_id kid docs = find (\<lambda>d. kpi_id d = kid) docs"

text \<open>
  \<^verbatim>\<open>db['kpi_data'].update_one({"kpi_id": kid}, {"$set": record}, upsert=True)\<close>: the
  first document with that \<^verbatim>\<open>kpi_id\<close> gets every field of \<open>record\<close> and keeps its
  \<^verbatim>\<open>_id\<close>; when there is none, a document with the fields of \<open>record\<close> and the new
  identifier \<open>new_id\<close> is added.
\<close>

fun update_one_upsert :: "string \<Rightarrow> snapshot \<Rightarrow> 'i \<Rightarrow> 'i snapshot_doc list \<Rightarrow> 'i snapshot_doc list" where
  "update_one_upsert kid r new_id [] =
     [\<lparr>kpi_id = kpi_id r, snapshot_values = snapshot_values r, actual = actual r,
       percentage = percentage r, updated_at = updated_at r, snapshot_doc_id = new_id\<rparr>]"
| "update_one_upsert kid r new_id (d # ds) =
     (if kpi_id d = kid
      then d\<lparr>kpi_id := kpi_id r, snapshot_values := snapshot_values r, actual := actual r,
             percentage := percentage r, updated_at := updated_at r\<rparr> # ds
      else d # update_one_upsert kid r new_id ds)"

section \<open>Endpoints\<close>

text \<open>
  \<^verbatim>\<open>
  def oid(id_str):
      try:
          return ObjectId(id_str)
      except Exception:
          raise HTTPException(status_code=400, detail="Invalid id format")
  \<close>
\<close>

definition oid :: "(string \<Rightarrow> 'i option) \<Rightarrow> string \<Rightarrow> error + 'i" where
  "oid ObjectId id_str =
     (case ObjectId id_str of
        Some i \<Rightarrow> Inr i
      | None \<Rightarrow> Inl (HTTPException 400 ''Invalid id format''))"

text \<open>
  The value that \<^verbatim>\<open>get_kpi\<close> returns: the eight fields of the KPI, the id as it was
  requested and the stored snapshot document as \<^verbatim>\<open>find_one\<close> gives it, \<^verbatim>\<open>None\<close>
  when there is none. The encoding of this value as JSON by the web framework is not part
  of the function.
\<close>

record 'i kpi_response = kpi_fields +
  response_id :: string
  data :: "'i snapshot_doc option"

definition get_kpi :: "(string \<Rightarrow> 'i option) \<Rightarrow> 'i database \<Rightarrow> string \<Rightarrow> error + 'i kpi_response" where
  "get_kpi ObjectId db kid =
     (case oid ObjectId kid of
        Inl e \<Rightarrow> Inl e
      | Inr i \<Rightarrow>
          (case find_one_id i (kpi db) of
             None \<Rightarrow> Inl (HTTPException 404 ''KPI not found'')
           | Some doc \<Rightarrow>
               Inr \<lparr>name = name doc, unit = unit doc, category = category doc,
                    weightage = weightage doc, start_value = start_value doc,
                    target_value = target_value doc, aggregation = aggregation doc,
                    frequency = frequency doc,
                    response_id = kid, data = find_one_kpi_id kid (kpi_data db)\<rparr>))"

text \<open>
  \<^verbatim>\<open>POST /api/kpis/{kpi_id}/data\<close>. The body is a \<^verbatim>\<open>KpiData\<close>, whose \<^verbatim>\<open>values\<close> are
  a \<^verbatim>\<open>conlist(float, min_length=1)\<close> (\<^verbatim>\<open>src/schemas.py\<close>): a body with an empty list
  is rejected before the function runs. The function reads no other field of the body. The
  clock reading \<open>now\<close> and the identifier \<open>new_id\<close> that the store gives to a new document
  are arguments. The result is the response together with the database after the call: an
  exception leaves the database as it was, since the only write is the last statement.
\<close>

definition save_kpi_data ::
  "(string \<Rightarrow> 'i option) \<Rightarrow> nat \<Rightarrow> 'i \<Rightarrow> 'i database \<Rightarrow> string \<Rightarrow> real list
     \<Rightarrow> (error + snapshot) \<times> 'i database" where
  "save_kpi_data ObjectId now new_id db kid payload_values =
     (if payload_values = [] then (Inl RequestValidationError, db)
      else
       (case oid ObjectId kid of
          Inl e \<Rightarrow> (Inl e, db)
        | Inr i \<Rightarrow>
            (case find_one_id i (kpi db) of
               None \<Rightarrow> (Inl (HTTPException 404 ''KPI not found''), db)
             | Some doc \<Rightarrow>
                 (case compute_actual payload_values (aggregation doc) of
                    Inl e \<Rightarrow> (Inl e, db)
                  | Inr act \<Rightarrow>
                      (case compute_percentage (category doc) act (start_value doc) (target_value doc) of
                         Inl e \<Rightarrow> (Inl e, db)
                       | Inr pct \<Rightarrow>
                           (let record = \<lparr>kpi_id = kid, snapshot_values = payload_values,
                                          actual = act, percentage = Some pct, updated_at = now\<rparr>
                            in (Inr record,
                                db\<lparr>kpi_data := update_one_upsert kid record new_id (kpi_data db)\<rparr>)))))))"

section \<open>The weighted score\<close>

subsection \<open>Double arithmetic\<close>

text \<open>
  The accumulations and the division of \<^verbatim>\<open>weighted_score\<close> are operations on doubles:
  each result is the exact result rounded to the nearest double, a tie going to the double
  with an even significand. A finite double is an integer multiple of a power of two
  \<open>2 powi e\<close> with \<open>e\<close> at least -1074 and a multiplier below \<open>2 ^ 53\<close>; \<open>round_at\<close>
  looks for the least such exponent that fits the number, from \<open>e\<close> upwards, and rounds to
  a multiple of that power. The model has no infinities and no NaN: from \<open>2 ^ 1024\<close> on,
  where the program's result is \<^verbatim>\<open>inf\<close>, the exponent stays at 971.

  The rounding is an argument \<open>rnd\<close> of the functions of this section: the program is the
  instance \<open>round_binary64\<close>, and the identity is arithmetic without rounding.
\<close>

definition round_half_even :: "real \<Rightarrow> int" where
  "round_half_even x =
     (let f = \<lfloor>x\<rfloor>; d = x - of_int f
      in if d < 1 / 2 then f else if 1 / 2 < d then f + 1 else if even f then f else f + 1)"

fun round_at :: "nat \<Rightarrow> int \<Rightarrow> real \<Rightarrow> real" where
  "round_at 0 e x = of_int (round_half_even (x / 2 powi e)) * 2 powi e"
| "round_at (Suc n) e x =
     (if x / 2 powi e < 2 ^ 53 then of_int (round_half_even (x / 2 powi e)) * 2 powi e
      else round_at n (e + 1) x)"

definition round_binary64 :: "real \<Rightarrow> real" where
  "round_binary64 x =
     (if x < 0 then - round_at 2045 (- 1074) (- x) else round_at 2045 (- 1074) x)"

subsection \<open>The display string\<close>

text \<open>
  The format \<^verbatim>\<open>f"{score:.2f}"\<close> on a real number: the nearest multiple of 1/100,
  a tie going to the even one, written as a sign, the decimal digits of the integer part,
  a point and two digits.
\<close>

definition digit_char :: "nat \<Rightarrow> char" where
  "digit_char d = ''0123456789'' ! (d mod 10)"

fun str_nat :: "nat \<Rightarrow> string" where
  "str_nat n = (if n < 10 then [digit_char n] else str_nat (n div 10) @ [digit_char (n mod 10)])"

declare str_nat.simps [simp del]

definition format_2f :: "real \<Rightarrow> string" where
  "format_2f x =
     (let n = nat (round_half_even (\<bar>x\<bar> * 100))
      in (if x < 0 then ''-'' else []) @ str_nat (n div 100) @ ''.''
         @ [digit_char (n mod 100 div 10), digit_char (n mod 10)])"




subsection \<open>The endpoint\<close>

text \<open>The JSON object \<^verbatim>\<open>{"weighted_score": ..., "display": ...}\<close>.\<close>

record score_response =
  weighted_score_value :: "real option"
  display :: string

text \<open>
  The loop of \<^verbatim>\<open>weighted_score\<close> over \<^verbatim>\<open>kpis\<close>, with the accumulators
  \<^verbatim>\<open>(total_weight, weighted_sum)\<close>:
  \<^verbatim>\<open>
  for k in kpis:
      kid = str(k.get('_id'))
      data = db['kpi_data'].find_one({"kpi_id": kid})
      if not data or data.get('percentage') is None:
          continue
      w = float(k.get('weightage', 0) or 0)
      if w <= 0:
          continue
      total_weight += w
      weighted_sum += float(data.get('percentage')) * w
  \<close>
\<close>

fun weighted_score_loop ::
  "(real \<Rightarrow> real) \<Rightarrow> ('i \<Rightarrow> string) \<Rightarrow> 'i snapshot_doc list \<Rightarrow> 'i kpi_doc list
     \<Rightarrow> real \<times> real \<Rightarrow> real \<times> real" where
  "weighted_score_loop rnd str snaps [] (total_weight, weighted_sum) = (total_weight, weighted_sum)"
| "weighted_score_loop rnd str snaps (k # ks) (total_weight, weighted_sum) =
     (let kid = str (doc_id k) in
      case find_one_kpi_id kid snaps of
        None \<Rightarrow> weighted_score_loop rnd str snaps ks (total_weight, weighted_sum)
      | Some d \<Rightarrow>
          (case percentage d of
             None \<Rightarrow> weighted_score_loop rnd str snaps ks (total_weight, weighted_sum)
           | Some p \<Rightarrow>
               (let w = (case weightage k of None \<Rightarrow> 0 | Some x \<Rightarrow> if x = 0 then 0 else x)
                in if w \<le> 0 then weighted_score_loop rnd str snaps ks (total_weight, weighted_sum)
                   else weighted_score_loop rnd str snaps ks
                          (rnd (total_weight + w), rnd (weighted_sum + rnd (p * w))))))"

text \<open>
  \<^verbatim>\<open>
  if total_weight <= 0:
      return {"weighted_score": None, "display": "N/A"}
  score = weighted_sum / total_weight
  return {"weighted_score": score, "display": f"{score:.2f}%"}
  \<close>
\<close>

definition weighted_score ::
  "(real \<Rightarrow> real) \<Rightarrow> ('i \<Rightarrow> string) \<Rightarrow> 'i database \<Rightarrow> error + score_response" where
  "weighted_score rnd str db =
     (case weighted_score_loop rnd str (kpi_data db) (kpi db) (0, 0) of
        (total_weight, weighted_sum) \<Rightarrow>
          if total_weight \<le> 0 then Inr \<lparr>weighted_score_value = None, display = ''N/A''\<rparr>
          else
            (case truediv weighted_sum total_weight of
               Inl e \<Rightarrow> Inl e
             | Inr q \<Rightarrow>
                 (let score = rnd q
                  in Inr \<lparr>weighted_score_value = Some score,
                          display = format_2f score @ ''%''\<rparr>)))"

subsection \<open>The qualifying KPIs, as the specification describes them\<close>

text \<open>
  A KPI qualifies when it has a snapshot whose percentage is present and its weightage is
  greater than 0; \<open>contribution\<close> is then its pair of percentage and weightage.
\<close>

definition contribution ::
  "('i \<Rightarrow> string) \<Rightarrow> 'i snapshot_doc list \<Rightarrow> 'i kpi_doc \<Rightarrow> (real \<times> real) option" where
  "contribution str snaps k =
     (case find_one_kpi_id (str (doc_id k)) snaps of
        None \<Rightarrow> None
      | Some d \<Rightarrow>
          (case percentage d of
             None \<Rightarrow> None
           | Some p \<Rightarrow>
               (case weightage k of
                  None \<Rightarrow> None
                | Some w \<Rightarrow> if 0 < w then Some (p, w) else None)))"

definition qualifies :: "('i \<Rightarrow> string) \<Rightarrow> 'i snapshot_doc list \<Rightarrow> 'i kpi_doc \<Rightarrow> bool" where
  "qualifies str snaps k \<longleftrightarrow> contribution str snaps k \<noteq> None"

definition contributions :: "('i \<Rightarrow> string) \<Rightarrow> 'i database \<Rightarrow> (real \<times> real) list" where
  "contributions str db = List.map_filter (contribution str (kpi_data db)) (kpi db)"



text \<open>The same two sums with every addition and every product rounded, from the left.\<close>

definition total_rounded :: "(real \<Rightarrow> real) \<Rightarrow> (real \<times> real) list \<Rightarrow> real" where
  "total_rounded rnd cs = foldl (\<lambda>a (p, w). rnd (a + w)) 0 cs"

definition weighted_rounded :: "(real \<Rightarrow> real) \<Rightarrow> (real \<times> real) list \<Rightarrow> real" where
  "weighted_rounded rnd cs = foldl (\<lambda>a (p, w). rnd (a + rnd (p * w))) 0 cs"

section \<open>Concrete identifiers and databases for the examples\<close>

text \<open>
  An instance of the identifier type: \<^verbatim>\<open>bson.ObjectId\<close> reads a string of 24
  hexadecimal digits and prints it in lower case. The theorems below hold for every
  constructor and every \<^verbatim>\<open>str\<close>; this instance is for the closed examples.
\<close>

definition lower_hex :: "char \<Rightarrow> char" where
  "lower_hex c = (case map_of (zip ''ABCDEF'' ''abcdef'') c of None \<Rightarrow> c | Some l \<Rightarrow> l)"

definition ObjectId_hex :: "string \<Rightarrow> string option" where
  "ObjectId_hex s =
     (if length s = 24 \<and> list_all (\<lambda>c. c \<in> set ''0123456789abcdefABCDEF'') s
      then Some (map lower_hex s) else None)"

definition str_hex :: "string \<Rightarrow> string" where
  "str_hex i = i"

definition kpi_revenue :: "string kpi_doc" where
  "kpi_revenue =
     \<lparr>name = ''Revenue'', unit = ''$'', category = Some ''Increase'', weightage = Some 20,
      start_value = 0, target_value = 100, aggregation = Some ''Sum'', frequency = ''Monthly'',
      doc_id = ''65a1b2c3d4e5f60718293a4b''\<rparr>"

definition kpi_uptime :: "string kpi_doc" where
  "kpi_uptime =
     \<lparr>name = ''Uptime'', unit = ''%'', category = Some ''Control'', weightage = Some 30,
      start_value = 10, target_value = 20, aggregation = Some ''Average'', frequency = ''Weekly'',
      doc_id = ''65a1b2c3d4e5f60718293a4c''\<rparr>"

text \<open>Weights 20 and 30 with percentages 50 and 100.\<close>

definition example_db :: "string database" where
  "example_db =
     \<lparr>kpi = [kpi_revenue, kpi_uptime],
      kpi_data =
        [\<lparr>kpi_id = ''65a1b2c3d4e5f60718293a4b'', snapshot_values = [20, 30], actual = 50,
          percentage = Some 50, updated_at = 1, snapshot_doc_id = ''75a1b2c3d4e5f60718293a01''\<rparr>,
         \<lparr>kpi_id = ''65a1b2c3d4e5f60718293a4c'', snapshot_values = [15], actual = 15,
          percentage = Some 100, updated_at = 2, snapshot_doc_id = ''75a1b2c3d4e5f60718293a02''\<rparr>]\<rparr>"

text \<open>
  No KPI qualifies: the first has no snapshot, the snapshot of the second has no
  percentage, the weightage of the third is 0 and that of the fourth is absent.
\<close>

definition unqualified_db :: "string database" where
  "unqualified_db =
     \<lparr>kpi = [kpi_revenue,
             kpi_uptime,
             kpi_revenue\<lparr>weightage := Some 0, doc_id := ''65a1b2c3d4e5f60718293a4d''\<rparr>,
             kpi_uptime\<lparr>weightage := None, doc_id := ''65a1b2c3d4e5f60718293a4e''\<rparr>],
      kpi_data =
        [\<lparr>kpi_id = ''65a1b2c3d4e5f60718293a4c'', snapshot_values = [15], actual = 15,
          percentage = None, updated_at = 2, snapshot_doc_id = ''75a1b2c3d4e5f60718293a02''\<rparr>,
         \<lparr>kpi_id = ''65a1b2c3d4e5f60718293a4d'', snapshot_values = [70], actual = 70,
          percentage = Some 70, updated_at = 3, snapshot_doc_id = ''75a1b2c3d4e5f60718293a03''\<rparr>,
         \<lparr>kpi_id = ''65a1b2c3d4e5f60718293a4e'', snapshot_values = [15], actual = 15,
          percentage = Some 100, updated_at = 4, snapshot_doc_id = ''75a1b2c3d4e5f60718293a04''\<rparr>]\<rparr>"



section \<open>Properties of the scoring functions\<close>

lemma foldl_add_sum_list: "foldl (+) (a::real) xs = a + sum_list xs"
  by (induction xs arbitrary: a) simp_all

lemma sum_builtin_sum_list: "sum_builtin xs = sum_list xs"
  by (simp add: sum_builtin_def foldl_add_sum_list)

text \<open>Neither function raises: the division is never reached with a zero divisor.\<close>

lemma compute_percentage_total: "\<exists>p. compute_percentage c a s t = Inr p"
  by (simp add: compute_percentage_def truediv_def)

lemma compute_actual_total: "\<exists>y. compute_actual vs g = Inr y"
  by (cases vs) (simp_all add: compute_actual_def truediv_def)

text \<open>
  C1. With start different from target, \<open>compute_percentage\<close> returns
  \<open>(actual - start) / (target - start) * 100\<close> for Increase and
  \<open>(start - actual) / (start - target) * 100\<close> for Decrease, clipped to the interval from
  0 to 100. With start equal to target it returns 0 for both categories, whatever the actual
  value is, and raises nothing.
\<close>

theorem compute_percentage_linear:
  "(s \<noteq> t \<longrightarrow>
      compute_percentage (Some ''Increase'') a s t = Inr (max 0 (min 100 ((a - s) / (t - s) * 100))) \<and>
      compute_percentage (Some ''Decrease'') a s t = Inr (max 0 (min 100 ((s - a) / (s - t) * 100))))
   \<and> (s = t \<longrightarrow>
      compute_percentage (Some ''Increase'') a s t = Inr 0 \<and>
      compute_percentage (Some ''Decrease'') a s t = Inr 0)"
  by (simp add: compute_percentage_def truediv_def clamp_percentage_def)

theorem compute_percentage_linear_witness:
  "(0::real) \<noteq> 100 \<and> (100::real) \<noteq> 0 \<and>
   compute_percentage (Some ''Increase'') 50 0 100 = Inr 50 \<and>
   compute_percentage (Some ''Increase'') 150 0 100 = Inr 100 \<and>
   compute_percentage (Some ''Increase'') (- 10) 0 100 = Inr 0 \<and>
   compute_percentage (Some ''Decrease'') 50 100 0 = Inr 50 \<and>
   compute_percentage (Some ''Decrease'') (- 20) 100 0 = Inr 100 \<and>
   compute_percentage (Some ''Decrease'') 130 100 0 = Inr 0 \<and>
   compute_percentage (Some ''Increase'') 7 50 50 = Inr 0 \<and>
   compute_percentage (Some ''Decrease'') 7 50 50 = Inr 0"
  using compute_percentage_linear [of 0 100 50] compute_percentage_linear [of 0 100 150]
        compute_percentage_linear [of 0 100 "- 10"] compute_percentage_linear [of 100 0 50]
        compute_percentage_linear [of 100 0 "- 20"] compute_percentage_linear [of 100 0 130]
        compute_percentage_linear [of 50 50 7]
  by simp

text \<open>
  C2. For the category Control, \<open>compute_percentage\<close> returns 100 exactly when the actual
  value lies between the smaller and the larger of start and target, both included, and 0
  otherwise. With start 20, target 10 and actual 15 it returns 100, and it returns 100 when
  the actual value is start or target.
\<close>

theorem compute_percentage_control:
  "compute_percentage (Some ''Control'') a s t = Inr (if min s t \<le> a \<and> a \<le> max s t then 100 else 0)
   \<and> compute_percentage (Some ''Control'') 15 20 10 = Inr 100
   \<and> compute_percentage (Some ''Control'') 15 10 20 = Inr 100
   \<and> compute_percentage (Some ''Control'') 25 10 20 = Inr 0
   \<and> compute_percentage (Some ''Control'') s s t = Inr 100
   \<and> compute_percentage (Some ''Control'') t s t = Inr 100"
  by (auto simp add: compute_percentage_def control_second_def clamp_percentage_def
      min_def max_def Let_def)

text \<open>
  C3. For every category and all actual, start and target values, \<open>compute_percentage\<close>
  returns a number between 0 and 100. For Increase from 0 to 100, the actual value 150
  gives 100 and the actual value -10 gives 0.
\<close>

theorem compute_percentage_range:
  "(\<exists>p. compute_percentage c a s t = Inr p \<and> 0 \<le> p \<and> p \<le> 100)
   \<and> compute_percentage (Some ''Increase'') 150 0 100 = Inr 100
   \<and> compute_percentage (Some ''Increase'') (- 10) 0 100 = Inr 0"
  by (simp add: compute_percentage_def truediv_def clamp_percentage_def Let_def)

text \<open>
  C7. \<open>compute_actual\<close> returns 0 for the empty list, whatever the aggregation. For a
  list that is not empty it returns the sum of the values for Sum and their mean for
  Average. On a single value both return that value; on 2, 4, 6 the sum is 12 and the
  average is 4.
\<close>

theorem compute_actual_aggregates:
  "compute_actual [] g = Inr 0
   \<and> (vs \<noteq> [] \<longrightarrow> compute_actual vs (Some ''Sum'') = Inr (sum_list vs)
                \<and> compute_actual vs (Some ''Average'') = Inr (sum_list vs / real (length vs)))
   \<and> compute_actual [v] (Some ''Sum'') = Inr v
   \<and> compute_actual [v] (Some ''Average'') = Inr v
   \<and> compute_actual [2, 4, 6] (Some ''Sum'') = Inr 12
   \<and> compute_actual [2, 4, 6] (Some ''Average'') = Inr 4"
  by (simp add: compute_actual_def truediv_def sum_builtin_sum_list)

theorem compute_actual_aggregates_witness:
  "[1, 2, 3 :: real] \<noteq> [] \<and> compute_actual [1, 2, 3] (Some ''Sum'') = Inr 6
     \<and> compute_actual [1, 2, 3] (Some ''Average'') = Inr 2"
  using compute_actual_aggregates [where vs = "[1, 2, 3]" and g = None and v = 0] by simp

text \<open>
  C9, as amended. The first condition of the Control branch is the membership of the
  actual value in the interval from start to target in that order; it implies the second
  condition and agrees with it whenever start is at most target. They differ when target is
  below start: for start 20, target 10 and actual 15 the first is false and the second
  true. The first assignment has no effect on the result, which is the clamped value of the
  second assignment for every category that is neither Increase nor Decrease.
\<close>

theorem control_conditions:
  "(control_first a s t \<longleftrightarrow> s \<le> a \<and> a \<le> t)
   \<and> (control_first a s t \<longrightarrow> control_second a s t)
   \<and> (s \<le> t \<longrightarrow> (control_first a s t \<longleftrightarrow> control_second a s t))
   \<and> (c \<noteq> Some ''Increase'' \<and> c \<noteq> Some ''Decrease'' \<longrightarrow>
        compute_percentage c a s t = Inr (clamp_percentage (if control_second a s t then 100 else 0)))"
  by (auto simp add: control_first_def control_second_def compute_percentage_def Let_def)

theorem control_conditions_counterexample:
  "\<not> (control_first 15 20 10 \<longleftrightarrow> control_second 15 20 10)"
  by (simp add: control_first_def control_second_def)

theorem control_conditions_witness:
  "control_first 15 10 20 \<and> control_second 15 10 20 \<and> (10::real) \<le> 20
   \<and> Some ''Control'' \<noteq> Some ''Increase'' \<and> Some ''Control'' \<noteq> Some ''Decrease''
   \<and> compute_percentage (Some ''Control'') 15 20 10 = Inr 100"
  using control_conditions [of 15 10 20 "Some ''Control''"]
        control_conditions [of 15 20 10 "Some ''Control''"]
  by (simp add: control_first_def control_second_def clamp_percentage_def)

text \<open>
  C10. For a list that is not empty and every aggregation other than \<^verbatim>\<open>'Sum'\<close>,
  \<^verbatim>\<open>None\<close> and misspellings included, \<open>compute_actual\<close> returns the mean of the
  values and raises nothing.
\<close>

theorem compute_actual_default_average:
  "vs \<noteq> [] \<Longrightarrow> g \<noteq> Some ''Sum'' \<Longrightarrow> compute_actual vs g = Inr (sum_list vs / real (length vs))"
  by (simp add: compute_actual_def truediv_def sum_builtin_sum_list)

theorem compute_actual_default_average_witness:
  "compute_actual [2, 4, 6] None = Inr 4 \<and> compute_actual [2, 4, 6] (Some ''Avg'') = Inr 4
   \<and> compute_actual [2, 4, 6] (Some ''sum'') = Inr 4"
  using compute_actual_default_average [of "[2, 4, 6]" None]
    compute_actual_default_average [of "[2, 4, 6]" "Some ''Avg''"]
    compute_actual_default_average [of "[2, 4, 6]" "Some ''sum''"]
  by simp

section \<open>Properties of the endpoints\<close>

subsection \<open>The collections\<close>

lemma find_one_id_distinct:
  "distinct (map doc_id docs) \<Longrightarrow> doc \<in> set docs \<Longrightarrow> find_one_id (doc_id doc) docs = Some doc"
  by (induction docs) (auto simp add: find_one_id_def)

lemma find_one_id_none:
  "i \<notin> doc_id ` set docs \<Longrightarrow> find_one_id i docs = None"
  by (auto simp add: find_one_id_def find_None_iff)

lemma upsert_append:
  "\<forall>d\<in>set ds. kpi_id d \<noteq> kid \<Longrightarrow>
   update_one_upsert kid r new_id ds =
     ds @ [\<lparr>kpi_id = kpi_id r, snapshot_values = snapshot_values r, actual = actual r,
            percentage = percentage r, updated_at = updated_at r, snapshot_doc_id = new_id\<rparr>]"
  by (induction ds) simp_all

lemma upsert_replace:
  "\<forall>x\<in>set xs. kpi_id x \<noteq> kid \<Longrightarrow> kpi_id d = kid \<Longrightarrow>
   update_one_upsert kid r new_id (xs @ d # ys) =
     xs @ \<lparr>kpi_id = kpi_id r, snapshot_values = snapshot_values r, actual = actual r,
           percentage = percentage r, updated_at = updated_at r,
           snapshot_doc_id = snapshot_doc_id d\<rparr> # ys"
  by (induction xs) simp_all

lemma upsert_keys:
  "kpi_id r = kid \<Longrightarrow>
   set (map kpi_id (update_one_upsert kid r new_id ds)) = insert kid (set (map kpi_id ds))"
  by (induction ds) auto

lemma upsert_distinct:
  "kpi_id r = kid \<Longrightarrow> distinct (map kpi_id ds) \<Longrightarrow>
   distinct (map kpi_id (update_one_upsert kid r new_id ds))"
proof (induction ds)
  case Nil
  then show ?case by simp
next
  case (Cons d ds)
  show ?case
  proof (cases "kpi_id d = kid")
    case True
    with Cons.prems show ?thesis by simp
  next
    case False
    have "kpi_id d \<notin> set (map kpi_id (update_one_upsert kid r new_id ds))"
      using Cons.prems False by (simp only: upsert_keys) auto
    with Cons False show ?thesis by simp
  qed
qed

lemma upsert_has_key:
  "kpi_id r = kid \<Longrightarrow> kid \<in> set (map kpi_id (update_one_upsert kid r new_id ds))"
  by (simp only: upsert_keys) simp

lemma distinct_count_one:
  "distinct (map f xs) \<Longrightarrow> k \<in> set (map f xs) \<Longrightarrow> length (filter (\<lambda>d. f d = k) xs) = 1"
proof (induction xs)
  case Nil
  then show ?case by simp
next
  case (Cons x xs)
  show ?case
  proof (cases "f x = k")
    case True
    with Cons.prems have "\<forall>d\<in>set xs. f d \<noteq> k" by (fastforce simp add: image_iff)
    then have "filter (\<lambda>d. f d = k) xs = []" by (simp add: filter_empty_conv)
    with True show ?thesis by simp
  next
    case False
    with Cons show ?thesis by auto
  qed
qed

subsection \<open>The examples\<close>

lemma example_ids:
  "ObjectId_hex ''abc'' = None"
  "ObjectId_hex ''65a1b2c3d4e5f60718293a4f'' = Some ''65a1b2c3d4e5f60718293a4f''"
  "ObjectId_hex ''65a1b2c3d4e5f60718293a4b'' = Some (doc_id kpi_revenue)"
  "ObjectId_hex ''65a1b2c3d4e5f60718293a4c'' = Some (doc_id kpi_uptime)"
  "ObjectId_hex ''65A1B2C3D4E5F60718293A4B'' = Some (doc_id kpi_revenue)"
  "str_hex (doc_id kpi_revenue) = ''65a1b2c3d4e5f60718293a4b''"
  "str_hex (doc_id kpi_uptime) = ''65a1b2c3d4e5f60718293a4c''"
  by (simp_all add: ObjectId_hex_def lower_hex_def str_hex_def kpi_revenue_def kpi_uptime_def)

lemma example_kpis:
  "''65a1b2c3d4e5f60718293a4f'' \<notin> doc_id ` set (kpi example_db)"
  "kpi_revenue \<in> set (kpi example_db)" "kpi_uptime \<in> set (kpi example_db)"
  "distinct (map doc_id (kpi example_db))"
  "kpi_revenue \<in> set (kpi unqualified_db)" "distinct (map doc_id (kpi unqualified_db))"
  by (simp_all add: example_db_def unqualified_db_def kpi_revenue_def kpi_uptime_def)

lemma example_scores:
  "compute_actual [2, 4, 6] (aggregation kpi_revenue) = Inr 12"
  "compute_percentage (category kpi_revenue) 12 (start_value kpi_revenue) (target_value kpi_revenue) = Inr 12"
  by (simp_all add: compute_actual_def sum_builtin_def compute_percentage_def truediv_def
      clamp_percentage_def kpi_revenue_def)

subsection \<open>Saving a snapshot\<close>

lemma save_kpi_data_found:
  assumes "vs \<noteq> []" and "ObjectId kid = Some i" and "find_one_id i (kpi db) = Some doc"
    and "compute_actual vs (aggregation doc) = Inr act"
    and "compute_percentage (category doc) act (start_value doc) (target_value doc) = Inr pct"
  shows "save_kpi_data ObjectId now new_id db kid vs =
     (Inr \<lparr>kpi_id = kid, snapshot_values = vs, actual = act, percentage = Some pct, updated_at = now\<rparr>,
      db\<lparr>kpi_data := update_one_upsert kid
            \<lparr>kpi_id = kid, snapshot_values = vs, actual = act, percentage = Some pct, updated_at = now\<rparr>
            new_id (kpi_data db)\<rparr>)"
  using assms by (simp add: save_kpi_data_def oid_def Let_def)

text \<open>
  C6, as amended. A body with an empty list of values is rejected and nothing is written.
  With values, \<open>save_kpi_data\<close> fails with status 400 when the id cannot be read as an
  identifier and with status 404 when it can but no stored KPI has that identifier; in both
  cases the database is unchanged. For a stored KPI that is requested by the string the
  store prints for its identifier, it computes the actual value from the submitted values
  and the KPI's aggregation, and the percentage from the KPI's category, the actual value
  and the KPI's start and target; it returns the record of these with the id and the time of
  the call, and writes exactly one snapshot document: when no snapshot has that id the
  record is added as a new document after the others, and otherwise the first snapshot with
  that id gets every field of the record and keeps its place and its own \<^verbatim>\<open>_id\<close>, all
  other documents staying as they are. The KPIs are unchanged, and when the snapshots had
  distinct ids before, they have distinct ids afterwards, exactly one of them this id.
\<close>

theorem save_kpi_data_outcomes:
  "save_kpi_data ObjectId now new_id db kid [] = (Inl RequestValidationError, db)
   \<and> (vs \<noteq> [] \<and> ObjectId kid = None \<longrightarrow>
      save_kpi_data ObjectId now new_id db kid vs = (Inl (HTTPException 400 ''Invalid id format''), db))
   \<and> (vs \<noteq> [] \<and> ObjectId kid = Some i \<and> i \<notin> doc_id ` set (kpi db) \<longrightarrow>
      save_kpi_data ObjectId now new_id db kid vs = (Inl (HTTPException 404 ''KPI not found''), db))
   \<and> (vs \<noteq> [] \<and> ObjectId kid = Some (doc_id doc) \<and> str (doc_id doc) = kid
        \<and> doc \<in> set (kpi db) \<and> distinct (map doc_id (kpi db)) \<longrightarrow>
      (\<exists>act pct.
         compute_actual vs (aggregation doc) = Inr act
         \<and> compute_percentage (category doc) act (start_value doc) (target_value doc) = Inr pct
         \<and> fst (save_kpi_data ObjectId now new_id db kid vs) =
             Inr \<lparr>kpi_id = str (doc_id doc), snapshot_values = vs, actual = act,
                  percentage = Some pct, updated_at = now\<rparr>
         \<and> kpi (snd (save_kpi_data ObjectId now new_id db kid vs)) = kpi db
         \<and> ((\<forall>d\<in>set (kpi_data db). kpi_id d \<noteq> str (doc_id doc)) \<longrightarrow>
              kpi_data (snd (save_kpi_data ObjectId now new_id db kid vs)) =
                kpi_data db @
                  [\<lparr>kpi_id = str (doc_id doc), snapshot_values = vs, actual = act,
                    percentage = Some pct, updated_at = now, snapshot_doc_id = new_id\<rparr>])
         \<and> (\<forall>xs d ys.
              kpi_data db = xs @ d # ys \<and> (\<forall>x\<in>set xs. kpi_id x \<noteq> str (doc_id doc))
                \<and> kpi_id d = str (doc_id doc) \<longrightarrow>
              kpi_data (snd (save_kpi_data ObjectId now new_id db kid vs)) =
                xs @ \<lparr>kpi_id = str (doc_id doc), snapshot_values = vs, actual = act,
                      percentage = Some pct, updated_at = now,
                      snapshot_doc_id = snapshot_doc_id d\<rparr> # ys)
         \<and> (distinct (map kpi_id (kpi_data db)) \<longrightarrow>
              distinct (map kpi_id (kpi_data (snd (save_kpi_data ObjectId now new_id db kid vs))))
              \<and> length (filter (\<lambda>d. kpi_id d = str (doc_id doc))
                    (kpi_data (snd (save_kpi_data ObjectId now new_id db kid vs)))) = 1)))"
proof (intro conjI impI)
  show "save_kpi_data ObjectId now new_id db kid [] = (Inl RequestValidationError, db)"
    by (simp add: save_kpi_data_def)
next
  assume "vs \<noteq> [] \<and> ObjectId kid = None"
  then show "save_kpi_data ObjectId now new_id db kid vs = (Inl (HTTPException 400 ''Invalid id format''), db)"
    by (simp add: save_kpi_data_def oid_def)
next
  assume "vs \<noteq> [] \<and> ObjectId kid = Some i \<and> i \<notin> doc_id ` set (kpi db)"
  then show "save_kpi_data ObjectId now new_id db kid vs = (Inl (HTTPException 404 ''KPI not found''), db)"
    by (simp add: save_kpi_data_def oid_def find_one_id_none)
next
  assume h: "vs \<noteq> [] \<and> ObjectId kid = Some (doc_id doc) \<and> str (doc_id doc) = kid
        \<and> doc \<in> set (kpi db) \<and> distinct (map doc_id (kpi db))"
  then have f: "find_one_id (doc_id doc) (kpi db) = Some doc"
    by (simp add: find_one_id_distinct)
  obtain act where a: "compute_actual vs (aggregation doc) = Inr act"
    using compute_actual_total by blast
  obtain pct where p: "compute_percentage (category doc) act (start_value doc) (target_value doc) = Inr pct"
    using compute_percentage_total by blast
  from h have v: "vs \<noteq> []" and o: "ObjectId kid = Some (doc_id doc)" and k: "str (doc_id doc) = kid"
    by simp_all
  define r where "r = \<lparr>kpi_id = kid, snapshot_values = vs, actual = act, percentage = Some pct, updated_at = now\<rparr>"
  have s: "save_kpi_data ObjectId now new_id db kid vs =
     (Inr r, db\<lparr>kpi_data := update_one_upsert kid r new_id (kpi_data db)\<rparr>)"
    unfolding r_def using v o f a p by (rule save_kpi_data_found)
  have rk: "kpi_id r = kid" by (simp add: r_def)
  have 1: "fst (save_kpi_data ObjectId now new_id db kid vs) =
             Inr \<lparr>kpi_id = str (doc_id doc), snapshot_values = vs, actual = act,
                  percentage = Some pct, updated_at = now\<rparr>"
    by (simp add: s r_def k)
  have 2: "kpi (snd (save_kpi_data ObjectId now new_id db kid vs)) = kpi db"
    by (simp add: s)
  have 3: "(\<forall>d\<in>set (kpi_data db). kpi_id d \<noteq> str (doc_id doc)) \<longrightarrow>
              kpi_data (snd (save_kpi_data ObjectId now new_id db kid vs)) =
                kpi_data db @
                  [\<lparr>kpi_id = str (doc_id doc), snapshot_values = vs, actual = act,
                    percentage = Some pct, updated_at = now, snapshot_doc_id = new_id\<rparr>]"
    by (simp add: s k upsert_append) (simp add: r_def)
  have 4: "\<forall>xs d ys.
              kpi_data db = xs @ d # ys \<and> (\<forall>x\<in>set xs. kpi_id x \<noteq> str (doc_id doc))
                \<and> kpi_id d = str (doc_id doc) \<longrightarrow>
              kpi_data (snd (save_kpi_data ObjectId now new_id db kid vs)) =
                xs @ \<lparr>kpi_id = str (doc_id doc), snapshot_values = vs, actual = act,
                      percentage = Some pct, updated_at = now,
                      snapshot_doc_id = snapshot_doc_id d\<rparr> # ys"
    by (auto simp add: s k upsert_replace) (simp_all add: r_def)
  have 5: "distinct (map kpi_id (kpi_data db)) \<longrightarrow>
              distinct (map kpi_id (kpi_data (snd (save_kpi_data ObjectId now new_id db kid vs))))
              \<and> length (filter (\<lambda>d. kpi_id d = str (doc_id doc))
                    (kpi_data (snd (save_kpi_data ObjectId now new_id db kid vs)))) = 1"
  proof
    assume d: "distinct (map kpi_id (kpi_data db))"
    have dd: "distinct (map kpi_id (update_one_upsert kid r new_id (kpi_data db)))"
      using rk d by (rule upsert_distinct)
    moreover have "kid \<in> set (map kpi_id (update_one_upsert kid r new_id (kpi_data db)))"
      using rk by (rule upsert_has_key)
    ultimately have "length (filter (\<lambda>d. kpi_id d = kid) (update_one_upsert kid r new_id (kpi_data db))) = 1"
      by (rule distinct_count_one)
    with dd show "distinct (map kpi_id (kpi_data (snd (save_kpi_data ObjectId now new_id db kid vs))))
              \<and> length (filter (\<lambda>d. kpi_id d = str (doc_id doc))
                    (kpi_data (snd (save_kpi_data ObjectId now new_id db kid vs)))) = 1"
      by (simp add: s k)
  qed
  from a p 1 2 3 4 5 show "\<exists>act pct.
         compute_actual vs (aggregation doc) = Inr act
         \<and> compute_percentage (category doc) act (start_value doc) (target_value doc) = Inr pct
         \<and> fst (save_kpi_data ObjectId now new_id db kid vs) =
             Inr \<lparr>kpi_id = str (doc_id doc), snapshot_values = vs, actual = act,
                  percentage = Some pct, updated_at = now\<rparr>
         \<and> kpi (snd (save_kpi_data ObjectId now new_id db kid vs)) = kpi db
         \<and> ((\<forall>d\<in>set (kpi_data db). kpi_id d \<noteq> str (doc_id doc)) \<longrightarrow>
              kpi_data (snd (save_kpi_data ObjectId now new_id db kid vs)) =
                kpi_data db @
                  [\<lparr>kpi_id = str (doc_id doc), snapshot_values = vs, actual = act,
                    percentage = Some pct, updated_at = now, snapshot_doc_id = new_id\<rparr>])
         \<and> (\<forall>xs d ys.
              kpi_data db = xs @ d # ys \<and> (\<forall>x\<in>set xs. kpi_id x \<noteq> str (doc_id doc))
                \<and> kpi_id d = str (doc_id doc) \<longrightarrow>
              kpi_data (snd (save_kpi_data ObjectId now new_id db kid vs)) =
                xs @ \<lparr>kpi_id = str (doc_id doc), snapshot_values = vs, actual = act,
                      percentage = Some pct, updated_at = now,
                      snapshot_doc_id = snapshot_doc_id d\<rparr> # ys)
         \<and> (distinct (map kpi_id (kpi_data db)) \<longrightarrow>
              distinct (map kpi_id (kpi_data (snd (save_kpi_data ObjectId now new_id db kid vs))))
              \<and> length (filter (\<lambda>d. kpi_id d = str (doc_id doc))
                    (kpi_data (snd (save_kpi_data ObjectId now new_id db kid vs)))) = 1)"
    by blast
qed

theorem save_kpi_data_bad_id_counterexample:
  "fst (save_kpi_data ObjectId_hex 9 ''75a1b2c3d4e5f60718293a09'' example_db ''abc'' [2, 4, 6])
     = Inl (HTTPException 400 ''Invalid id format'')
   \<and> fst (save_kpi_data ObjectId_hex 9 ''75a1b2c3d4e5f60718293a09'' example_db ''abc'' [2, 4, 6])
     \<noteq> Inl (HTTPException 404 ''KPI not found'')"
  by (simp add: save_kpi_data_def oid_def ObjectId_hex_def)

theorem save_kpi_data_outcomes_witness:
  "save_kpi_data ObjectId_hex 9 ''75a1b2c3d4e5f60718293a09'' example_db ''65a1b2c3d4e5f60718293a4b'' []
       = (Inl RequestValidationError, example_db)
   \<and> [2, 4, 6 :: real] \<noteq> [] \<and> ObjectId_hex ''abc'' = None
   \<and> save_kpi_data ObjectId_hex 9 ''75a1b2c3d4e5f60718293a09'' example_db ''abc'' [2, 4, 6]
       = (Inl (HTTPException 400 ''Invalid id format''), example_db)
   \<and> ObjectId_hex ''65a1b2c3d4e5f60718293a4f'' = Some ''65a1b2c3d4e5f60718293a4f''
   \<and> ''65a1b2c3d4e5f60718293a4f'' \<notin> doc_id ` set (kpi example_db)
   \<and> save_kpi_data ObjectId_hex 9 ''75a1b2c3d4e5f60718293a09'' example_db ''65a1b2c3d4e5f60718293a4f'' [2, 4, 6]
       = (Inl (HTTPException 404 ''KPI not found''), example_db)
   \<and> ObjectId_hex ''65a1b2c3d4e5f60718293a4b'' = Some (doc_id kpi_revenue)
   \<and> str_hex (doc_id kpi_revenue) = ''65a1b2c3d4e5f60718293a4b''
   \<and> kpi_revenue \<in> set (kpi example_db) \<and> distinct (map doc_id (kpi example_db))
   \<and> distinct (map kpi_id (kpi_data example_db))
   \<and> save_kpi_data ObjectId_hex 9 ''75a1b2c3d4e5f60718293a09'' example_db ''65a1b2c3d4e5f60718293a4b'' [2, 4, 6]
       = (Inr \<lparr>kpi_id = ''65a1b2c3d4e5f60718293a4b'', snapshot_values = [2, 4, 6], actual = 12,
               percentage = Some 12, updated_at = 9\<rparr>,
          \<lparr>kpi = [kpi_revenue, kpi_uptime],
           kpi_data =
             [\<lparr>kpi_id = ''65a1b2c3d4e5f60718293a4b'', snapshot_values = [2, 4, 6], actual = 12,
               percentage = Some 12, updated_at = 9, snapshot_doc_id = ''75a1b2c3d4e5f60718293a01''\<rparr>,
              \<lparr>kpi_id = ''65a1b2c3d4e5f60718293a4c'', snapshot_values = [15], actual = 15,
               percentage = Some 100, updated_at = 2, snapshot_doc_id = ''75a1b2c3d4e5f60718293a02''\<rparr>]\<rparr>)
   \<and> length (filter (\<lambda>d. kpi_id d = ''65a1b2c3d4e5f60718293a4b'')
         (kpi_data (snd (save_kpi_data ObjectId_hex 9 ''75a1b2c3d4e5f60718293a09'' example_db
                           ''65a1b2c3d4e5f60718293a4b'' [2, 4, 6])))) = 1
   \<and> kpi_revenue \<in> set (kpi unqualified_db) \<and> distinct (map doc_id (kpi unqualified_db))
   \<and> kpi_data (snd (save_kpi_data ObjectId_hex 9 ''75a1b2c3d4e5f60718293a09'' unqualified_db
                       ''65a1b2c3d4e5f60718293a4b'' [2, 4, 6]))
       = kpi_data unqualified_db @
           [\<lparr>kpi_id = ''65a1b2c3d4e5f60718293a4b'', snapshot_values = [2, 4, 6], actual = 12,
             percentage = Some 12, updated_at = 9, snapshot_doc_id = ''75a1b2c3d4e5f60718293a09''\<rparr>]"
proof -
  let ?new = "''75a1b2c3d4e5f60718293a09''"
  let ?rev = "''65a1b2c3d4e5f60718293a4b''"
  have v: "[2, 4, 6 :: real] \<noteq> []" by simp
  have 0: "save_kpi_data ObjectId_hex 9 ?new example_db ?rev [] = (Inl RequestValidationError, example_db)"
    using save_kpi_data_outcomes [of ObjectId_hex 9 ?new example_db ?rev] by blast
  have 1: "save_kpi_data ObjectId_hex 9 ?new example_db ''abc'' [2, 4, 6]
       = (Inl (HTTPException 400 ''Invalid id format''), example_db)"
    using save_kpi_data_outcomes [of ObjectId_hex 9 ?new example_db "''abc''" "[2, 4, 6]"]
      v example_ids(1) by blast
  have 2: "save_kpi_data ObjectId_hex 9 ?new example_db ''65a1b2c3d4e5f60718293a4f'' [2, 4, 6]
       = (Inl (HTTPException 404 ''KPI not found''), example_db)"
    using save_kpi_data_outcomes [of ObjectId_hex 9 ?new example_db "''65a1b2c3d4e5f60718293a4f''"
        "[2, 4, 6]" "''65a1b2c3d4e5f60718293a4f''"]
      v example_ids(2) example_kpis(1) by blast
  have dk: "distinct (map kpi_id (kpi_data example_db))"
    by (simp add: example_db_def)
  define d0 :: "string snapshot_doc" where
    "d0 = \<lparr>kpi_id = ''65a1b2c3d4e5f60718293a4b'', snapshot_values = [20, 30], actual = 50,
          percentage = Some 50, updated_at = 1, snapshot_doc_id = ''75a1b2c3d4e5f60718293a01''\<rparr>"
  define ys :: "string snapshot_doc list" where
    "ys = [\<lparr>kpi_id = ''65a1b2c3d4e5f60718293a4c'', snapshot_values = [15], actual = 15,
          percentage = Some 100, updated_at = 2, snapshot_doc_id = ''75a1b2c3d4e5f60718293a02''\<rparr>]"
  have sp: "kpi_data example_db = [] @ d0 # ys \<and> (\<forall>x\<in>set []. kpi_id x \<noteq> str_hex (doc_id kpi_revenue))
      \<and> kpi_id d0 = str_hex (doc_id kpi_revenue)"
    by (simp add: example_db_def d0_def ys_def example_ids(6))
  obtain act pct where
    a: "compute_actual [2, 4, 6] (aggregation kpi_revenue) = Inr act"
    and p: "compute_percentage (category kpi_revenue) act (start_value kpi_revenue) (target_value kpi_revenue) = Inr pct"
    and r: "fst (save_kpi_data ObjectId_hex 9 ?new example_db ?rev [2, 4, 6]) =
             Inr \<lparr>kpi_id = str_hex (doc_id kpi_revenue), snapshot_values = [2, 4, 6], actual = act,
                  percentage = Some pct, updated_at = 9\<rparr>"
    and k: "kpi (snd (save_kpi_data ObjectId_hex 9 ?new example_db ?rev [2, 4, 6])) = kpi example_db"
    and w: "\<forall>xs d ys.
              kpi_data example_db = xs @ d # ys \<and> (\<forall>x\<in>set xs. kpi_id x \<noteq> str_hex (doc_id kpi_revenue))
                \<and> kpi_id d = str_hex (doc_id kpi_revenue) \<longrightarrow>
              kpi_data (snd (save_kpi_data ObjectId_hex 9 ?new example_db ?rev [2, 4, 6])) =
                xs @ \<lparr>kpi_id = str_hex (doc_id kpi_revenue), snapshot_values = [2, 4, 6], actual = act,
                      percentage = Some pct, updated_at = 9,
                      snapshot_doc_id = snapshot_doc_id d\<rparr> # ys"
    and c: "distinct (map kpi_id (kpi_data example_db)) \<longrightarrow>
              distinct (map kpi_id (kpi_data (snd (save_kpi_data ObjectId_hex 9 ?new example_db ?rev [2, 4, 6]))))
              \<and> length (filter (\<lambda>d. kpi_id d = str_hex (doc_id kpi_revenue))
                    (kpi_data (snd (save_kpi_data ObjectId_hex 9 ?new example_db ?rev [2, 4, 6])))) = 1"
    using save_kpi_data_outcomes [of ObjectId_hex 9 ?new example_db ?rev "[2, 4, 6]" _ kpi_revenue str_hex]
      v example_ids(3,6) example_kpis(2,4) by blast
  from a have act: "act = 12" by (simp add: example_scores)
  from p have pct: "pct = 12" by (simp add: act example_scores)
  from w sp have "kpi_data (snd (save_kpi_data ObjectId_hex 9 ?new example_db ?rev [2, 4, 6])) =
      [] @ \<lparr>kpi_id = str_hex (doc_id kpi_revenue), snapshot_values = [2, 4, 6], actual = act,
            percentage = Some pct, updated_at = 9, snapshot_doc_id = snapshot_doc_id d0\<rparr> # ys"
    by blast
  then have d: "kpi_data (snd (save_kpi_data ObjectId_hex 9 ?new example_db ?rev [2, 4, 6])) =
      [\<lparr>kpi_id = ''65a1b2c3d4e5f60718293a4b'', snapshot_values = [2, 4, 6], actual = 12,
        percentage = Some 12, updated_at = 9, snapshot_doc_id = ''75a1b2c3d4e5f60718293a01''\<rparr>,
       \<lparr>kpi_id = ''65a1b2c3d4e5f60718293a4c'', snapshot_values = [15], actual = 15,
        percentage = Some 100, updated_at = 2, snapshot_doc_id = ''75a1b2c3d4e5f60718293a02''\<rparr>]"
    by (simp add: act pct example_ids(6) d0_def ys_def)
  have 3: "save_kpi_data ObjectId_hex 9 ?new example_db ?rev [2, 4, 6]
       = (Inr \<lparr>kpi_id = ''65a1b2c3d4e5f60718293a4b'', snapshot_values = [2, 4, 6], actual = 12,
               percentage = Some 12, updated_at = 9\<rparr>,
          \<lparr>kpi = [kpi_revenue, kpi_uptime],
           kpi_data =
             [\<lparr>kpi_id = ''65a1b2c3d4e5f60718293a4b'', snapshot_values = [2, 4, 6], actual = 12,
               percentage = Some 12, updated_at = 9, snapshot_doc_id = ''75a1b2c3d4e5f60718293a01''\<rparr>,
              \<lparr>kpi_id = ''65a1b2c3d4e5f60718293a4c'', snapshot_values = [15], actual = 15,
               percentage = Some 100, updated_at = 2, snapshot_doc_id = ''75a1b2c3d4e5f60718293a02''\<rparr>]\<rparr>)"
    using r k d by (simp add: prod_eq_iff act pct example_ids(6) example_db_def)
  from c dk have 4: "length (filter (\<lambda>d. kpi_id d = ''65a1b2c3d4e5f60718293a4b'')
         (kpi_data (snd (save_kpi_data ObjectId_hex 9 ?new example_db ?rev [2, 4, 6])))) = 1"
    by (simp add: example_ids(6))
  have n: "\<forall>d\<in>set (kpi_data unqualified_db). kpi_id d \<noteq> str_hex (doc_id kpi_revenue)"
    by (simp add: unqualified_db_def example_ids(6))
  obtain act' pct' where
    a': "compute_actual [2, 4, 6] (aggregation kpi_revenue) = Inr act'"
    and p': "compute_percentage (category kpi_revenue) act' (start_value kpi_revenue) (target_value kpi_revenue) = Inr pct'"
    and i': "(\<forall>d\<in>set (kpi_data unqualified_db). kpi_id d \<noteq> str_hex (doc_id kpi_revenue)) \<longrightarrow>
              kpi_data (snd (save_kpi_data ObjectId_hex 9 ?new unqualified_db ?rev [2, 4, 6])) =
                kpi_data unqualified_db @
                  [\<lparr>kpi_id = str_hex (doc_id kpi_revenue), snapshot_values = [2, 4, 6], actual = act',
                    percentage = Some pct', updated_at = 9, snapshot_doc_id = ?new\<rparr>]"
    using save_kpi_data_outcomes [of ObjectId_hex 9 ?new unqualified_db ?rev "[2, 4, 6]" _ kpi_revenue str_hex]
      v example_ids(3,6) example_kpis(5,6) by blast
  from a' have act': "act' = 12" by (simp add: example_scores)
  from p' have pct': "pct' = 12" by (simp add: act' example_scores)
  from i' n have 5: "kpi_data (snd (save_kpi_data ObjectId_hex 9 ?new unqualified_db ?rev [2, 4, 6]))
       = kpi_data unqualified_db @
           [\<lparr>kpi_id = ''65a1b2c3d4e5f60718293a4b'', snapshot_values = [2, 4, 6], actual = 12,
             percentage = Some 12, updated_at = 9, snapshot_doc_id = ?new\<rparr>]"
    by (simp add: act' pct' example_ids(6))
  from v 0 1 2 3 4 5 dk example_ids(1,2,3,6) example_kpis(1,2,4,5,6) show ?thesis
    by blast
qed

subsection \<open>Reading a KPI\<close>

text \<open>
  C8, as amended. \<open>get_kpi\<close> fails with status 400 when the id cannot be read as an
  identifier, and with status 404 when it can but no stored KPI has that identifier. For a
  stored KPI that is requested by the string the store prints for its identifier, it returns
  the KPI's fields, that id and the whole snapshot document stored under that id, which is
  the document the weighted score reads for this KPI, or \<^verbatim>\<open>None\<close> when there is none.
\<close>

theorem get_kpi_outcomes:
  "(ObjectId kid = None \<longrightarrow>
      get_kpi ObjectId db kid = Inl (HTTPException 400 ''Invalid id format''))
   \<and> (ObjectId kid = Some i \<and> i \<notin> doc_id ` set (kpi db) \<longrightarrow>
      get_kpi ObjectId db kid = Inl (HTTPException 404 ''KPI not found''))
   \<and> (ObjectId kid = Some (doc_id doc) \<and> str (doc_id doc) = kid
        \<and> doc \<in> set (kpi db) \<and> distinct (map doc_id (kpi db)) \<longrightarrow>
      get_kpi ObjectId db kid =
        Inr \<lparr>name = name doc, unit = unit doc, category = category doc,
             weightage = weightage doc, start_value = start_value doc,
             target_value = target_value doc, aggregation = aggregation doc,
             frequency = frequency doc,
             response_id = str (doc_id doc),
             data = find_one_kpi_id (str (doc_id doc)) (kpi_data db)\<rparr>)"
  by (auto simp add: get_kpi_def oid_def find_one_id_none find_one_id_distinct)

theorem get_kpi_bad_id_counterexample:
  "get_kpi ObjectId_hex example_db ''abc'' = Inl (HTTPException 400 ''Invalid id format'')
   \<and> get_kpi ObjectId_hex example_db ''abc'' \<noteq> Inl (HTTPException 404 ''KPI not found'')"
  by (simp add: get_kpi_def oid_def ObjectId_hex_def)

theorem get_kpi_outcomes_witness:
  "ObjectId_hex ''abc'' = None
   \<and> get_kpi ObjectId_hex example_db ''abc'' = Inl (HTTPException 400 ''Invalid id format'')
   \<and> ObjectId_hex ''65a1b2c3d4e5f60718293a4f'' = Some ''65a1b2c3d4e5f60718293a4f''
   \<and> ''65a1b2c3d4e5f60718293a4f'' \<notin> doc_id ` set (kpi example_db)
   \<and> get_kpi ObjectId_hex example_db ''65a1b2c3d4e5f60718293a4f''
       = Inl (HTTPException 404 ''KPI not found'')
   \<and> ObjectId_hex ''65a1b2c3d4e5f60718293a4c'' = Some (doc_id kpi_uptime)
   \<and> str_hex (doc_id kpi_uptime) = ''65a1b2c3d4e5f60718293a4c''
   \<and> kpi_uptime \<in> set (kpi example_db) \<and> distinct (map doc_id (kpi example_db))
   \<and> get_kpi ObjectId_hex example_db ''65a1b2c3d4e5f60718293a4c''
       = Inr \<lparr>name = ''Uptime'', unit = ''%'', category = Some ''Control'', weightage = Some 30,
              start_value = 10, target_value = 20, aggregation = Some ''Average'',
              frequency = ''Weekly'', response_id = ''65a1b2c3d4e5f60718293a4c'',
              data = Some \<lparr>kpi_id = ''65a1b2c3d4e5f60718293a4c'', snapshot_values = [15],
                           actual = 15, percentage = Some 100, updated_at = 2,
                           snapshot_doc_id = ''75a1b2c3d4e5f60718293a02''\<rparr>\<rparr>"
proof -
  have 1: "get_kpi ObjectId_hex example_db ''abc'' = Inl (HTTPException 400 ''Invalid id format'')"
    using get_kpi_outcomes [of ObjectId_hex "''abc''" example_db] example_ids(1) by blast
  have 2: "get_kpi ObjectId_hex example_db ''65a1b2c3d4e5f60718293a4f''
       = Inl (HTTPException 404 ''KPI not found'')"
    using get_kpi_outcomes [of ObjectId_hex "''65a1b2c3d4e5f60718293a4f''" example_db
        "''65a1b2c3d4e5f60718293a4f''"] example_ids(2) example_kpis(1) by blast
  have "get_kpi ObjectId_hex example_db ''65a1b2c3d4e5f60718293a4c'' =
        Inr \<lparr>name = name kpi_uptime, unit = unit kpi_uptime, category = category kpi_uptime,
             weightage = weightage kpi_uptime, start_value = start_value kpi_uptime,
             target_value = target_value kpi_uptime, aggregation = aggregation kpi_uptime,
             frequency = frequency kpi_uptime,
             response_id = str_hex (doc_id kpi_uptime),
             data = find_one_kpi_id (str_hex (doc_id kpi_uptime)) (kpi_data example_db)\<rparr>"
    using get_kpi_outcomes [of ObjectId_hex "''65a1b2c3d4e5f60718293a4c''" example_db _ kpi_uptime str_hex]
      example_ids(4,7) example_kpis(3,4) by blast
  then have 3: "get_kpi ObjectId_hex example_db ''65a1b2c3d4e5f60718293a4c''
       = Inr \<lparr>name = ''Uptime'', unit = ''%'', category = Some ''Control'', weightage = Some 30,
              start_value = 10, target_value = 20, aggregation = Some ''Average'',
              frequency = ''Weekly'', response_id = ''65a1b2c3d4e5f60718293a4c'',
              data = Some \<lparr>kpi_id = ''65a1b2c3d4e5f60718293a4c'', snapshot_values = [15],
                           actual = 15, percentage = Some 100, updated_at = 2,
                           snapshot_doc_id = ''75a1b2c3d4e5f60718293a02''\<rparr>\<rparr>"
    by (simp add: example_ids(7) find_one_kpi_id_def example_db_def) (simp add: kpi_uptime_def)
  from 1 2 3 example_ids(1,2,4,7) example_kpis(1,3,4) show ?thesis by blast
qed

subsection \<open>Another spelling of the id\<close>

text \<open>
  The hypothesis on the id string matters. The concrete constructor reads the upper-case
  spelling of an identifier as the same identifier, but the snapshot is looked up and
  written under the string of the request.
\<close>

lemma get_kpi_other_spelling:
  "get_kpi ObjectId_hex example_db ''65A1B2C3D4E5F60718293A4B''
     = Inr \<lparr>name = ''Revenue'', unit = ''$'', category = Some ''Increase'', weightage = Some 20,
            start_value = 0, target_value = 100, aggregation = Some ''Sum'',
            frequency = ''Monthly'', response_id = ''65A1B2C3D4E5F60718293A4B'', data = None\<rparr>"
  by (simp add: get_kpi_def oid_def example_ids find_one_id_def find_one_kpi_id_def example_db_def)
     (simp add: kpi_revenue_def)

lemma save_kpi_data_other_spelling:
  "kpi_data (snd (save_kpi_data ObjectId_hex 9 ''75a1b2c3d4e5f60718293a09'' example_db
                    ''65A1B2C3D4E5F60718293A4B'' [2, 4, 6]))
     = kpi_data example_db @
         [\<lparr>kpi_id = ''65A1B2C3D4E5F60718293A4B'', snapshot_values = [2, 4, 6], actual = 12,
           percentage = Some 12, updated_at = 9, snapshot_doc_id = ''75a1b2c3d4e5f60718293a09''\<rparr>]"
  by (simp add: save_kpi_data_def oid_def example_ids find_one_id_def example_db_def Let_def)
     (simp add: kpi_revenue_def compute_actual_def sum_builtin_def compute_percentage_def
        truediv_def clamp_percentage_def)

section \<open>Properties of the weighted score\<close>

subsection \<open>Rounding\<close>




lemma round_half_even_of_int: "round_half_even (of_int k) = k"
  by (simp add: round_half_even_def)














subsection \<open>The display string\<close>








subsection \<open>The loop and the two accumulations\<close>

lemma loop_foldl:
  "weighted_score_loop rnd str snaps ks (tw, ws) =
     (foldl (\<lambda>a (p, w). rnd (a + w)) tw (List.map_filter (contribution str snaps) ks),
      foldl (\<lambda>a (p, w). rnd (a + rnd (p * w))) ws (List.map_filter (contribution str snaps) ks))"
proof (induction ks arbitrary: tw ws)
  case Nil
  show ?case by (simp add: List.map_filter_simps)
next
  case (Cons k ks)
  show ?case
    by (simp add: Cons.IH contribution_def List.map_filter_simps Let_def split: option.splits)
qed

lemma loop_contributions:
  "weighted_score_loop rnd str (kpi_data db) (kpi db) (0, 0)
     = (total_rounded rnd (contributions str db), weighted_rounded rnd (contributions str db))"
  by (simp add: loop_foldl contributions_def total_rounded_def weighted_rounded_def)

lemma map_filter_qualifies:
  "List.map_filter (contribution str snaps) (filter (qualifies str snaps) ks)
     = List.map_filter (contribution str snaps) ks"
  by (induction ks) (auto simp add: List.map_filter_simps qualifies_def split: option.splits)

lemma qualifies_iff:
  "qualifies str snaps k \<longleftrightarrow>
     (\<exists>d p w. find_one_kpi_id (str (doc_id k)) snaps = Some d \<and> percentage d = Some p
        \<and> weightage k = Some w \<and> 0 < w)"
  by (auto simp add: qualifies_def contribution_def split: option.splits)



lemma contributions_empty_iff:
  "contributions str db = [] \<longleftrightarrow> (\<forall>k\<in>set (kpi db). \<not> qualifies str (kpi_data db) k)"
  by (auto simp add: contributions_def List.map_filter_def qualifies_def filter_empty_conv)








lemma weighted_score_none:
  "contributions str db = [] \<Longrightarrow>
   weighted_score rnd str db = Inr \<lparr>weighted_score_value = None, display = ''N/A''\<rparr>"
  by (simp add: weighted_score_def loop_contributions total_rounded_def)




text \<open>
  C4. A KPI qualifies exactly when it has a snapshot with a percentage and a weightage
  greater than 0. A KPI with no snapshot, with a snapshot that has no percentage, or with a
  weightage that is absent or at most 0 leaves both accumulators of the loop as they are, so
  the loop over all KPIs is the loop over the qualifying ones. When the total weight is at
  most 0 after the loop, and so when no KPI qualifies, the score is \<^verbatim>\<open>None\<close> with
  the display string \<^verbatim>\<open>N/A\<close>, not zero and not an error. This holds whatever the
  rounding of the arithmetic is.
\<close>

theorem weighted_score_skips:
  "(qualifies str snaps k \<longleftrightarrow>
      (\<exists>d p w. find_one_kpi_id (str (doc_id k)) snaps = Some d \<and> percentage d = Some p
         \<and> weightage k = Some w \<and> 0 < w))
   \<and> (find_one_kpi_id (str (doc_id k)) snaps = None
        \<or> (\<exists>d. find_one_kpi_id (str (doc_id k)) snaps = Some d \<and> percentage d = None)
        \<or> weightage k = None \<or> (\<exists>w. weightage k = Some w \<and> w \<le> 0)
      \<longrightarrow> weighted_score_loop rnd str snaps (k # ks) acc = weighted_score_loop rnd str snaps ks acc)
   \<and> weighted_score_loop rnd str snaps ks acc
        = weighted_score_loop rnd str snaps (filter (qualifies str snaps) ks) acc
   \<and> (fst (weighted_score_loop rnd str (kpi_data db) (kpi db) (0, 0)) \<le> 0 \<longrightarrow>
        weighted_score rnd str db = Inr \<lparr>weighted_score_value = None, display = ''N/A''\<rparr>)
   \<and> ((\<forall>k\<in>set (kpi db). \<not> qualifies str (kpi_data db) k) \<longrightarrow>
        weighted_score rnd str db = Inr \<lparr>weighted_score_value = None, display = ''N/A''\<rparr>)"
proof (intro conjI)
  show "qualifies str snaps k \<longleftrightarrow>
      (\<exists>d p w. find_one_kpi_id (str (doc_id k)) snaps = Some d \<and> percentage d = Some p
         \<and> weightage k = Some w \<and> 0 < w)"
    by (rule qualifies_iff)
  show "find_one_kpi_id (str (doc_id k)) snaps = None
        \<or> (\<exists>d. find_one_kpi_id (str (doc_id k)) snaps = Some d \<and> percentage d = None)
        \<or> weightage k = None \<or> (\<exists>w. weightage k = Some w \<and> w \<le> 0)
      \<longrightarrow> weighted_score_loop rnd str snaps (k # ks) acc = weighted_score_loop rnd str snaps ks acc"
    by (cases acc) (auto simp add: Let_def split: option.splits)
  show "weighted_score_loop rnd str snaps ks acc
        = weighted_score_loop rnd str snaps (filter (qualifies str snaps) ks) acc"
    by (cases acc) (simp add: loop_foldl map_filter_qualifies)
  show "fst (weighted_score_loop rnd str (kpi_data db) (kpi db) (0, 0)) \<le> 0 \<longrightarrow>
        weighted_score rnd str db = Inr \<lparr>weighted_score_value = None, display = ''N/A''\<rparr>"
    by (simp add: weighted_score_def split: prod.splits)
  show "(\<forall>k\<in>set (kpi db). \<not> qualifies str (kpi_data db) k) \<longrightarrow>
        weighted_score rnd str db = Inr \<lparr>weighted_score_value = None, display = ''N/A''\<rparr>"
    using weighted_score_none [of str db rnd] contributions_empty_iff [of str db] by blast
qed

theorem weighted_score_skips_witness:
  "find_one_kpi_id (str_hex (doc_id kpi_revenue)) (kpi_data unqualified_db) = None
   \<and> weighted_score_loop round_binary64 str_hex (kpi_data unqualified_db) (kpi_revenue # [kpi_uptime]) (0, 0)
       = weighted_score_loop round_binary64 str_hex (kpi_data unqualified_db) [kpi_uptime] (0, 0)
   \<and> \<not> qualifies str_hex (kpi_data unqualified_db) (kpi unqualified_db ! 0)
   \<and> \<not> qualifies str_hex (kpi_data unqualified_db) (kpi unqualified_db ! 1)
   \<and> \<not> qualifies str_hex (kpi_data unqualified_db) (kpi unqualified_db ! 2)
   \<and> \<not> qualifies str_hex (kpi_data unqualified_db) (kpi unqualified_db ! 3)
   \<and> length (kpi unqualified_db) = 4
   \<and> fst (weighted_score_loop round_binary64 str_hex (kpi_data unqualified_db) (kpi unqualified_db) (0, 0)) \<le> 0
   \<and> weighted_score round_binary64 str_hex unqualified_db
       = Inr \<lparr>weighted_score_value = None, display = ''N/A''\<rparr>"
proof -
  have f: "find_one_kpi_id (str_hex (doc_id kpi_revenue)) (kpi_data unqualified_db) = None"
    by (simp add: find_one_kpi_id_def str_hex_def kpi_revenue_def unqualified_db_def)
  have q: "\<forall>k\<in>set (kpi unqualified_db). \<not> qualifies str_hex (kpi_data unqualified_db) k"
    by (simp add: qualifies_def contribution_def find_one_kpi_id_def str_hex_def
        kpi_revenue_def kpi_uptime_def unqualified_db_def)
  have l: "fst (weighted_score_loop round_binary64 str_hex (kpi_data unqualified_db) (kpi unqualified_db) (0, 0)) \<le> 0"
    by (simp add: find_one_kpi_id_def str_hex_def kpi_revenue_def kpi_uptime_def unqualified_db_def)
  note t = weighted_score_skips [of str_hex "kpi_data unqualified_db" kpi_revenue round_binary64
      "[kpi_uptime]" "(0, 0)" unqualified_db]
  from t f have 1: "weighted_score_loop round_binary64 str_hex (kpi_data unqualified_db) (kpi_revenue # [kpi_uptime]) (0, 0)
       = weighted_score_loop round_binary64 str_hex (kpi_data unqualified_db) [kpi_uptime] (0, 0)"
    by blast
  from t q have 2: "weighted_score round_binary64 str_hex unqualified_db
       = Inr \<lparr>weighted_score_value = None, display = ''N/A''\<rparr>"
    by blast
  have q4: "\<not> qualifies str_hex (kpi_data unqualified_db) (kpi unqualified_db ! 0)
      \<and> \<not> qualifies str_hex (kpi_data unqualified_db) (kpi unqualified_db ! 1)
      \<and> \<not> qualifies str_hex (kpi_data unqualified_db) (kpi unqualified_db ! 2)
      \<and> \<not> qualifies str_hex (kpi_data unqualified_db) (kpi unqualified_db ! 3)
      \<and> length (kpi unqualified_db) = 4"
    by (simp add: qualifies_def contribution_def find_one_kpi_id_def str_hex_def
        kpi_revenue_def kpi_uptime_def unqualified_db_def)
  from f q4 l 1 2 show ?thesis by blast
qed




end
